theory Spec2Isabelle
  imports Main "HOL-Library.Word" "HOL-Library.Log_Nat"
begin

section \<open>Immutable backup-retention settings of a Seed: parsing and admission rules\<close>

text \<open>
  A shallow embedding of \<^verbatim>\<open>pkg/admission/validator/seed.go\<close> (the admission webhook's
  validator) and of \<^verbatim>\<open>ParseImmutableSettings\<close> in \<^verbatim>\<open>pkg/gcp/client/storage.go\<close>
  (the storage client's parser).

  Go values are modelled as follows.
  \<^item> A Go \<^verbatim>\<open>string\<close> and a \<^verbatim>\<open>[]byte\<close> are byte sequences: \<^typ>\<open>string\<close>.
  \<^item> \<^verbatim>\<open>uint64\<close> and \<^verbatim>\<open>int64\<close> (so \<^verbatim>\<open>time.Duration\<close>) are \<^typ>\<open>64 word\<close>; a
    duration is read signed (\<^term>\<open>sint\<close>) and compared with \<open><s\<close> and \<open>\<le>s\<close>.
  \<^item> A pointer that may be nil is an \<^typ>\<open>'a option\<close>.
  \<^item> A returned \<^verbatim>\<open>error\<close> is the text of its \<^verbatim>\<open>Error()\<close>; a pair
    \<^verbatim>\<open>(value, error)\<close> is a sum with \<^term>\<open>Inl\<close> for the error.
\<close>

type_synonym uint64 = "64 word"
type_synonym Duration = "64 word"

subsection \<open>The standard library: \<^verbatim>\<open>time.ParseDuration\<close>\<close>

text \<open>
  \<^verbatim>\<open>time.ParseDuration\<close> belongs to Go's standard library; the model below follows
  \<^verbatim>\<open>src/time/format.go\<close> function by function.
\<close>

definition isDigit :: "char \<Rightarrow> bool" where
  "isDigit c = (48 \<le> (of_char c :: nat) \<and> (of_char c :: nat) \<le> 57)"

definition digitVal :: "char \<Rightarrow> uint64" where
  "digitVal c = of_nat (of_char c - 48)"

definition lowerhex :: "nat \<Rightarrow> char" where
  "lowerhex n = ''0123456789abcdef'' ! (n mod 16)"

text \<open>
  \<^verbatim>\<open>quote\<close>: every byte below \<^verbatim>\<open>' '\<close> or from \<^verbatim>\<open>0x80\<close> on is written
  \<^verbatim>\<open>\xHH\<close> (a multi-byte rune byte by byte), a double quote and a backslash are
  escaped by a backslash, and the whole is put in double quotes.
\<close>

fun quoteBytes :: "string \<Rightarrow> string" where
  "quoteBytes [] = []"
| "quoteBytes (c # cs) =
     (let b = (of_char c :: nat) in
      if b \<ge> 128 \<or> b < 32
      then [CHR 0x5C, CHR ''x'', lowerhex (b div 16), lowerhex (b mod 16)] @ quoteBytes cs
      else if c = CHR 0x22 \<or> c = CHR 0x5C then CHR 0x5C # c # quoteBytes cs
      else c # quoteBytes cs)"

definition quote :: "string \<Rightarrow> string" where
  "quote s = [CHR 0x22] @ quoteBytes s @ [CHR 0x22]"

text \<open>
  \<^verbatim>\<open>leadingInt\<close> consumes the leading \<^verbatim>\<open>[0-9]*\<close>; \<^term>\<open>None\<close> is
  \<^verbatim>\<open>errLeadingInt\<close> (the value exceeds \<open>2^63\<close>).
\<close>

fun leadingInt_loop :: "uint64 \<Rightarrow> string \<Rightarrow> (uint64 \<times> string) option" where
  "leadingInt_loop x [] = Some (x, [])"
| "leadingInt_loop x (c # cs) =
     (if \<not> isDigit c then Some (x, c # cs)
      else if x > 2 ^ 63 div 10 then None
      else (let x' = x * 10 + digitVal c in
            if x' > 2 ^ 63 then None else leadingInt_loop x' cs))"

definition leadingInt :: "string \<Rightarrow> (uint64 \<times> string) option" where
  "leadingInt s = leadingInt_loop 0 s"

text \<open>
  \<^verbatim>\<open>leadingFraction\<close> works with a \<^verbatim>\<open>float64\<close> scale, and
  \<^verbatim>\<open>ParseDuration\<close> multiplies and divides in \<^verbatim>\<open>float64\<close>. The values that occur
  are not negative, so a \<^verbatim>\<open>float64\<close> is modelled as \<open>m * 2^e\<close>
  (\<^verbatim>\<open>Finite m e\<close>), plus infinity, or not a number. Every operation rounds its exact
  result to the nearest value with a 53-bit significand, ties to even, with gradual underflow
  below \<open>2^-1022\<close> and overflow to infinity from \<open>2^1024\<close> on (IEEE 754 binary64,
  which Go prescribes).
\<close>

datatype float64 = Finite nat int | PosInf | NaN

text \<open>\<^term>\<open>round_float64 n d\<close> is the \<^verbatim>\<open>float64\<close> nearest to the fraction \<open>n / d\<close> (with \<open>0 < d\<close>).\<close>

definition round_float64 :: "nat \<Rightarrow> nat \<Rightarrow> float64" where
  "round_float64 n d =
     (if n = 0 then Finite 0 0
      else
        let L = int (floorlog 2 n) - int (floorlog 2 d);
            e = (if n * 2 ^ nat (- L) \<ge> d * 2 ^ nat L then L else L - 1);
            p = max e (- 1022) - 52;
            N = n * 2 ^ nat (- p);
            D = d * 2 ^ nat p;
            q = N div D;
            r = N mod D;
            m = (if 2 * r < D \<or> (2 * r = D \<and> even q) then q else q + 1)
        in if int (floorlog 2 m) + p > 1024 then PosInf else Finite m p)"

definition float64_of_uint64 :: "uint64 \<Rightarrow> float64" where
  "float64_of_uint64 x = round_float64 (unat x) 1"

fun f64_mul :: "float64 \<Rightarrow> float64 \<Rightarrow> float64" where
  "f64_mul (Finite m1 e1) (Finite m2 e2) =
     round_float64 (m1 * m2 * 2 ^ nat (e1 + e2)) (2 ^ nat (- (e1 + e2)))"
| "f64_mul (Finite m e) PosInf = (if m = 0 then NaN else PosInf)"
| "f64_mul PosInf (Finite m e) = (if m = 0 then NaN else PosInf)"
| "f64_mul PosInf PosInf = PosInf"
| "f64_mul _ _ = NaN"

fun f64_div :: "float64 \<Rightarrow> float64 \<Rightarrow> float64" where
  "f64_div (Finite m1 e1) (Finite m2 e2) =
     (if m2 = 0 then (if m1 = 0 then NaN else PosInf)
      else round_float64 (m1 * 2 ^ nat (e1 - e2)) (m2 * 2 ^ nat (e2 - e1)))"
| "f64_div (Finite m e) PosInf = Finite 0 0"
| "f64_div PosInf (Finite m e) = PosInf"
| "f64_div _ _ = NaN"

text \<open>
  The conversion \<^verbatim>\<open>uint64(x)\<close> truncates. Where the value does not fit, Go leaves the
  result to the implementation. \<^verbatim>\<open>ParseDuration\<close> converts a product that is at most
  the number of nanoseconds of the unit (\<open>3.6e12\<close> for an hour, as its comment says), so
  that case is not reached; the model fixes \<open>2^63\<close> for it.
\<close>

fun uint64_of_float64 :: "float64 \<Rightarrow> uint64" where
  "uint64_of_float64 (Finite m e) =
     (let t = (if e \<ge> 0 then m * 2 ^ nat e else m div 2 ^ nat (- e))
      in if t < 2 ^ 64 then of_nat t else 2 ^ 63)"
| "uint64_of_float64 _ = 2 ^ 63"

fun leadingFraction_loop ::
  "uint64 \<Rightarrow> float64 \<Rightarrow> bool \<Rightarrow> string \<Rightarrow> uint64 \<times> float64 \<times> string" where
  "leadingFraction_loop x scale overflow [] = (x, scale, [])"
| "leadingFraction_loop x scale overflow (c # cs) =
     (if \<not> isDigit c then (x, scale, c # cs)
      else if overflow then leadingFraction_loop x scale overflow cs
      else if x > (2 ^ 63 - 1) div 10 then leadingFraction_loop x scale True cs
      else (let y = x * 10 + digitVal c in
            if y > 2 ^ 63 then leadingFraction_loop x scale True cs
            else leadingFraction_loop y (f64_mul scale (Finite 10 0)) overflow cs))"

definition leadingFraction :: "string \<Rightarrow> uint64 \<times> float64 \<times> string" where
  "leadingFraction s = leadingFraction_loop 0 (Finite 1 0) False s"

definition unitMap :: "(string \<times> uint64) list" where
  "unitMap =
     [(''ns'', 1),
      (''us'', 1000),
      ([CHR 0xC2, CHR 0xB5, CHR ''s''], 1000),
      ([CHR 0xCE, CHR 0xBC, CHR ''s''], 1000),
      (''ms'', 1000000),
      (''s'', 1000000000),
      (''m'', 60000000000),
      (''h'', 3600000000000)]"

definition invalidDuration :: "string \<Rightarrow> string" where
  "invalidDuration orig = ''time: invalid duration '' @ quote orig"

definition inNumber :: "char \<Rightarrow> bool" where
  "inNumber c = (c = CHR ''.'' \<or> isDigit c)"

text \<open>
  One round of the loop of \<^verbatim>\<open>ParseDuration\<close>: a number, an optional fraction and a
  unit. It returns the nanoseconds of this term and the rest of the string.
\<close>

definition parseTerm :: "string \<Rightarrow> string \<Rightarrow> string + (uint64 \<times> string)" where
  "parseTerm orig s =
     (if s = [] \<or> \<not> inNumber (hd s) then Inl (invalidDuration orig)
      else case leadingInt s of
        None \<Rightarrow> Inl (invalidDuration orig)
      | Some (v, s1) \<Rightarrow>
         (let pre = (length s \<noteq> length s1);
              dot = (s1 \<noteq> [] \<and> hd s1 = CHR ''.'');
              (f, scale, s2) = (if dot then leadingFraction (tl s1) else (0, Finite 1 0, s1));
              post = (dot \<and> length (tl s1) \<noteq> length s2)
          in if \<not> pre \<and> \<not> post then Inl (invalidDuration orig)
             else
               let u = takeWhile (\<lambda>c. \<not> inNumber c) s2;
                   s3 = dropWhile (\<lambda>c. \<not> inNumber c) s2
               in if u = [] then Inl (''time: missing unit in duration '' @ quote orig)
                  else
                    (case map_of unitMap u of
                       None \<Rightarrow>
                         Inl (''time: unknown unit '' @ quote u @ '' in duration '' @ quote orig)
                     | Some unit \<Rightarrow>
                         if v > 2 ^ 63 div unit then Inl (invalidDuration orig)
                         else
                           (let v1 = v * unit in
                            if f > 0
                            then
                              (let v2 = v1 + uint64_of_float64
                                     (f64_mul (float64_of_uint64 f)
                                        (f64_div (float64_of_uint64 unit) scale))
                               in if v2 > 2 ^ 63 then Inl (invalidDuration orig)
                                  else Inr (v2, s3))
                            else Inr (v1, s3)))))"

lemma leadingInt_loop_length:
  "leadingInt_loop x s = Some (v, r) \<Longrightarrow> length r \<le> length s"
  by (induction x s rule: leadingInt_loop.induct) (auto simp: Let_def split: if_splits)

lemma leadingFraction_loop_length:
  "leadingFraction_loop x sc ov s = (f, sc', r) \<Longrightarrow> length r \<le> length s"
  by (induction x sc ov s rule: leadingFraction_loop.induct)
     (auto simp: Let_def split: if_splits)

lemma parseTerm_shorter:
  assumes "parseTerm orig s = Inr (v, r)"
  shows "length r < length s"
proof -
  from assms obtain v0 s1 where li: "leadingInt s = Some (v0, s1)"
    by (auto simp: parseTerm_def split: if_splits option.splits)
  define dot where "dot = (s1 \<noteq> [] \<and> hd s1 = CHR ''.'')"
  define fr where "fr = (if dot then leadingFraction (tl s1) else (0, Finite 1 0, s1))"
  obtain f sc s2 where fr_eq: "fr = (f, sc, s2)"
    by (cases fr) auto
  have l1: "length s1 \<le> length s"
    using li leadingInt_loop_length by (simp add: leadingInt_def)
  have l2: "length s2 \<le> length s1"
  proof (cases dot)
    case True
    then have "leadingFraction_loop 0 (Finite 1 0) False (tl s1) = (f, sc, s2)"
      using fr_eq by (simp add: fr_def leadingFraction_def)
    then have "length s2 \<le> length (tl s1)"
      by (rule leadingFraction_loop_length)
    then show ?thesis by simp
  next
    case False
    then show ?thesis using fr_eq by (simp add: fr_def)
  qed
  have "takeWhile (\<lambda>c. \<not> inNumber c) s2 \<noteq> []"
    and r: "r = dropWhile (\<lambda>c. \<not> inNumber c) s2"
    using assms li fr_eq
    by (auto simp: parseTerm_def Let_def dot_def [symmetric] fr_def [symmetric]
        split: if_splits option.splits)
  then have "length r < length s2"
    by (metis length_append length_greater_0_conv less_add_same_cancel2
        takeWhile_dropWhile_id)
  with l1 l2 show ?thesis by simp
qed

text \<open>The loop \<^verbatim>\<open>for s != ""\<close> of \<^verbatim>\<open>ParseDuration\<close>, with the running total \<open>d\<close>.\<close>

function ParseDuration_loop :: "string \<Rightarrow> uint64 \<Rightarrow> string \<Rightarrow> string + uint64" where
  "ParseDuration_loop orig d s =
     (if s = [] then Inr d
      else case parseTerm orig s of
        Inl e \<Rightarrow> Inl e
      | Inr (v, s') \<Rightarrow>
          (let d' = d + v in
           if d' > 2 ^ 63 then Inl (invalidDuration orig)
           else ParseDuration_loop orig d' s'))"
  by pat_completeness auto
termination
  by (relation "measure (\<lambda>(orig, d, s). length s)") (auto dest: parseTerm_shorter)

definition time_ParseDuration :: "string \<Rightarrow> string + Duration" where
  "time_ParseDuration orig =
     (let sign = (orig \<noteq> [] \<and> (hd orig = CHR ''-'' \<or> hd orig = CHR ''+''));
          neg = (orig \<noteq> [] \<and> hd orig = CHR ''-'');
          s = (if sign then tl orig else orig)
      in if s = ''0'' then Inr 0
         else if s = [] then Inl (invalidDuration orig)
         else case ParseDuration_loop orig 0 s of
           Inl e \<Rightarrow> Inl e
         | Inr d \<Rightarrow>
             if neg then Inr (- d)
             else if d > 2 ^ 63 - 1 then Inl (invalidDuration orig)
             else Inr d)"

subsection \<open>The standard library: \<^verbatim>\<open>json.Unmarshal\<close> into the two configuration structs\<close>

text \<open>
  \<^verbatim>\<open>json.Unmarshal\<close> first checks the syntax of the whole input and then decodes it
  into the target. The bytes of a \<^verbatim>\<open>RawExtension\<close> are represented by what the syntax
  check makes of them: no bytes at all, bytes that are not a JSON text (with the message of
  the \<^verbatim>\<open>SyntaxError\<close>), or the JSON value they denote. An object keeps its members in
  the order of the text, duplicates included, since the decoder visits them in that order.
\<close>

datatype json =
    JNull
  | JBool bool
  | JNumber string
  | JString string
  | JArray "json list"
  | JObject "(string \<times> json) list"

datatype bytes = Empty | Malformed string | Document json

record RawExtension =
  Raw :: bytes

text \<open>\<^verbatim>\<open>ImmutableSettingsJSON\<close>; the fields carry the names of their JSON tags.\<close>

record ImmutableSettingsJSON =
  retentionType :: string
  retentionPeriod :: string

definition zeroImmutableSettingsJSON :: ImmutableSettingsJSON where
  "zeroImmutableSettingsJSON = \<lparr>retentionType = [], retentionPeriod = []\<rparr>"

text \<open>
  A member's key selects the struct field whose name it equals, or else equals after Unicode
  case folding. The field names here are ASCII; beyond the ASCII letters only
  U+017F (long s, bytes \<^verbatim>\<open>C5 BF\<close>) and U+212A (Kelvin sign, bytes \<^verbatim>\<open>E2 84 AA\<close>)
  fold to an ASCII letter, so all other bytes from \<^verbatim>\<open>0x80\<close> on are left as they are.
\<close>

definition foldByte :: "char \<Rightarrow> char" where
  "foldByte c =
     (if 97 \<le> (of_char c :: nat) \<and> (of_char c :: nat) \<le> 122
      then char_of ((of_char c :: nat) - 32) else c)"

fun foldName :: "string \<Rightarrow> string" where
  "foldName [] = []"
| "foldName [a] = [foldByte a]"
| "foldName [a, b] =
     (if a = CHR 0xC5 \<and> b = CHR 0xBF then ''S'' else foldByte a # foldName [b])"
| "foldName (a # b # c # cs) =
     (if a = CHR 0xE2 \<and> b = CHR 0x84 \<and> c = CHR 0xAA then CHR ''K'' # foldName cs
      else if a = CHR 0xC5 \<and> b = CHR 0xBF then CHR ''S'' # foldName (c # cs)
      else foldByte a # foldName (b # c # cs))"

definition fieldMatch :: "string \<Rightarrow> string \<Rightarrow> bool" where
  "fieldMatch name key = (key = name \<or> foldName key = foldName name)"

fun jsonValueName :: "json \<Rightarrow> string" where
  "jsonValueName JNull = ''null''"
| "jsonValueName (JBool b) = ''bool''"
| "jsonValueName (JNumber n) = ''number''"
| "jsonValueName (JString s) = ''string''"
| "jsonValueName (JArray vs) = ''array''"
| "jsonValueName (JObject kvs) = ''object''"

text \<open>The text of an \<^verbatim>\<open>UnmarshalTypeError\<close>, with and without a struct field.\<close>

definition unmarshalTypeError :: "string \<Rightarrow> string \<Rightarrow> string" where
  "unmarshalTypeError val ty = ''json: cannot unmarshal '' @ val @ '' into Go value of type '' @ ty"

definition unmarshalFieldTypeError :: "string \<Rightarrow> string \<Rightarrow> string \<Rightarrow> string \<Rightarrow> string" where
  "unmarshalFieldTypeError val struct field ty =
     ''json: cannot unmarshal '' @ val @ '' into Go struct field '' @ struct @ ''.'' @ field
       @ '' of type '' @ ty"

text \<open>
  The decoder keeps the first type error (\<^verbatim>\<open>saveError\<close>), goes on decoding, and
  \<^verbatim>\<open>Unmarshal\<close> returns that error at the end.
\<close>

definition saveError :: "string option \<Rightarrow> string \<Rightarrow> string option" where
  "saveError saved e = (case saved of None \<Rightarrow> Some e | Some e0 \<Rightarrow> Some e0)"

text \<open>
  A value for a field of type \<^verbatim>\<open>string\<close>: a JSON string is stored, \<^verbatim>\<open>null\<close>
  leaves the field as it is, anything else is a type error.
\<close>

definition storeString ::
  "string \<Rightarrow> json \<Rightarrow> string option \<times> string \<Rightarrow> string option \<times> string" where
  "storeString field v st =
     (case v of
        JString x \<Rightarrow> (fst st, x)
      | JNull \<Rightarrow> st
      | _ \<Rightarrow> (saveError (fst st)
                (unmarshalFieldTypeError (jsonValueName v) ''ImmutableSettingsJSON''
                   (''immutableSettings.'' @ field) ''string''), snd st))"

fun decodeSettingsMembers ::
  "(string \<times> json) list \<Rightarrow> string option \<times> ImmutableSettingsJSON
     \<Rightarrow> string option \<times> ImmutableSettingsJSON" where
  "decodeSettingsMembers [] st = st"
| "decodeSettingsMembers ((k, v) # kvs) (saved, js) =
     decodeSettingsMembers kvs
       (if fieldMatch ''retentionType'' k
        then (let (saved', x) = storeString ''retentionType'' v (saved, retentionType js)
              in (saved', js\<lparr>retentionType := x\<rparr>))
        else if fieldMatch ''retentionPeriod'' k
        then (let (saved', x) = storeString ''retentionPeriod'' v (saved, retentionPeriod js)
              in (saved', js\<lparr>retentionPeriod := x\<rparr>))
        else (saved, js))"

text \<open>
  A value for a field of type \<^verbatim>\<open>ImmutableSettingsJSON\<close> (package \<open>pkg\<close>): an object
  fills the struct that is there, \<^verbatim>\<open>null\<close> leaves it, anything else is a type error.
\<close>

definition decodeSettings ::
  "string \<Rightarrow> json \<Rightarrow> string option \<times> ImmutableSettingsJSON
     \<Rightarrow> string option \<times> ImmutableSettingsJSON" where
  "decodeSettings pkg v st =
     (case v of
        JObject kvs \<Rightarrow> decodeSettingsMembers kvs st
      | JNull \<Rightarrow> st
      | _ \<Rightarrow> (saveError (fst st)
                (unmarshalFieldTypeError (jsonValueName v) [] ''immutableSettings''
                   (pkg @ ''.ImmutableSettingsJSON'')), snd st))"

text \<open>
  A value for a field of type \<^verbatim>\<open>*ImmutableSettingsJSON\<close>: \<^verbatim>\<open>null\<close> sets the
  pointer to nil; for any other value a nil pointer is first set to a new zero struct, and
  the value is decoded into the struct pointed to.
\<close>

definition decodeSettingsPtr ::
  "json \<Rightarrow> string option \<times> ImmutableSettingsJSON option
     \<Rightarrow> string option \<times> ImmutableSettingsJSON option" where
  "decodeSettingsPtr v st =
     (if v = JNull then (fst st, None)
      else
        let target = (case snd st of None \<Rightarrow> zeroImmutableSettingsJSON | Some js \<Rightarrow> js);
            (saved', js') = decodeSettings ''validator'' v (fst st, target)
        in (saved', Some js'))"

text \<open>
  The validator's target:
  \<^verbatim>\<open>struct { ImmutableSettings *ImmutableSettingsJSON `json:"immutableSettings"` }\<close>.
  The model returns the field \<^verbatim>\<open>config.ImmutableSettings\<close>.
\<close>

fun decodeValidatorConfig ::
  "(string \<times> json) list \<Rightarrow> string option \<times> ImmutableSettingsJSON option
     \<Rightarrow> string option \<times> ImmutableSettingsJSON option" where
  "decodeValidatorConfig [] st = st"
| "decodeValidatorConfig ((k, v) # kvs) st =
     decodeValidatorConfig kvs
       (if fieldMatch ''immutableSettings'' k then decodeSettingsPtr v st else st)"

definition validatorConfigType :: string where
  "validatorConfigType =
     ''struct { ImmutableSettings *validator.ImmutableSettingsJSON ''
       @ [CHR 0x22] @ ''json:'' @ [CHR 0x5C, CHR 0x22] @ ''immutableSettings''
       @ [CHR 0x5C, CHR 0x22, CHR 0x22] @ '' }''"

definition json_Unmarshal_validator :: "bytes \<Rightarrow> string + ImmutableSettingsJSON option" where
  "json_Unmarshal_validator data =
     (case data of
        Empty \<Rightarrow> Inl ''unexpected end of JSON input''
      | Malformed e \<Rightarrow> Inl e
      | Document v \<Rightarrow>
          (let st = (case v of
                       JObject kvs \<Rightarrow> decodeValidatorConfig kvs (None, None)
                     | JNull \<Rightarrow> (None, None)
                     | _ \<Rightarrow> (Some (unmarshalTypeError (jsonValueName v) validatorConfigType),
                             None))
           in case fst st of Some e \<Rightarrow> Inl e | None \<Rightarrow> Inr (snd st)))"

text \<open>
  The storage client's target:
  \<^verbatim>\<open>struct { ImmutableSettings ImmutableSettingsJSON `json:"immutableSettings"` }\<close>,
  a struct value, not a pointer.
\<close>

fun decodeClientConfig ::
  "(string \<times> json) list \<Rightarrow> string option \<times> ImmutableSettingsJSON
     \<Rightarrow> string option \<times> ImmutableSettingsJSON" where
  "decodeClientConfig [] st = st"
| "decodeClientConfig ((k, v) # kvs) st =
     decodeClientConfig kvs
       (if fieldMatch ''immutableSettings'' k then decodeSettings ''client'' v st else st)"

definition clientConfigType :: string where
  "clientConfigType =
     ''struct { ImmutableSettings client.ImmutableSettingsJSON ''
       @ [CHR 0x22] @ ''json:'' @ [CHR 0x5C, CHR 0x22] @ ''immutableSettings''
       @ [CHR 0x5C, CHR 0x22, CHR 0x22] @ '' }''"

definition json_Unmarshal_client :: "bytes \<Rightarrow> string + ImmutableSettingsJSON" where
  "json_Unmarshal_client data =
     (case data of
        Empty \<Rightarrow> Inl ''unexpected end of JSON input''
      | Malformed e \<Rightarrow> Inl e
      | Document v \<Rightarrow>
          (let st = (case v of
                       JObject kvs \<Rightarrow> decodeClientConfig kvs (None, zeroImmutableSettingsJSON)
                     | JNull \<Rightarrow> (None, zeroImmutableSettingsJSON)
                     | _ \<Rightarrow> (Some (unmarshalTypeError (jsonValueName v) clientConfigType),
                             zeroImmutableSettingsJSON))
           in case fst st of Some e \<Rightarrow> Inl e | None \<Rightarrow> Inr (snd st)))"

subsection \<open>\<^verbatim>\<open>pkg/admission/validator/seed.go\<close>\<close>

text \<open>
  \<^verbatim>\<open>ImmutableSettings\<close> is declared twice, with the same fields, in package
  \<^verbatim>\<open>validator\<close> and in package \<^verbatim>\<open>client\<close>; one record stands for both.
\<close>

record ImmutableSettings =
  RetentionType :: string
  RetentionPeriod :: Duration

text \<open>
  Of a \<^verbatim>\<open>Seed\<close> only the path \<^verbatim>\<open>Spec.Backup.ProviderConfig\<close> is read.
  \<^verbatim>\<open>Backup\<close> and \<^verbatim>\<open>ProviderConfig\<close> are pointers.
\<close>

record SeedBackup =
  ProviderConfig :: "RawExtension option"

record SeedSpec =
  Backup :: "SeedBackup option"

record Seed =
  Spec :: SeedSpec

text \<open>
  What a validation returns: \<^verbatim>\<open>nil\<close>, an error with its message, or no return at all
  because a nil pointer was dereferenced.
\<close>

datatype outcome = Accepted | Rejected string | Panicked

definition apostrophe :: string where
  "apostrophe = [CHR 0x27]"

text \<open>\<^verbatim>\<open>ParseImmutableSettings\<close> of package \<^verbatim>\<open>validator\<close> (seed.go, lines 135-162).\<close>

definition validator_ParseImmutableSettings ::
  "RawExtension option \<Rightarrow> string + ImmutableSettings option" where
  "validator_ParseImmutableSettings providerConfig =
     (case providerConfig of
        None \<Rightarrow> Inr None
      | Some pc \<Rightarrow>
          if Raw pc = Empty then Inr None
          else
            (case json_Unmarshal_validator (Raw pc) of
               Inl err \<Rightarrow> Inl (''error while parsing immutable settings: '' @ err)
             | Inr config \<Rightarrow>
                 (case config of
                    None \<Rightarrow> Inr None
                  | Some js \<Rightarrow>
                      (case time_ParseDuration (retentionPeriod js) of
                         Inl err \<Rightarrow> Inl (''invalid retentionPeriod format: '' @ err)
                       | Inr duration \<Rightarrow>
                           Inr (Some \<lparr>RetentionType = retentionType js,
                                      RetentionPeriod = duration\<rparr>)))))"

text \<open>\<^verbatim>\<open>validateImmutableSettings\<close> (lines 120-132); its argument is a pointer.\<close>

definition validateImmutableSettings :: "ImmutableSettings option \<Rightarrow> outcome" where
  "validateImmutableSettings imSettings =
     (case imSettings of
        None \<Rightarrow> Panicked
      | Some im \<Rightarrow>
          if RetentionType im \<noteq> ''bucket''
          then Rejected (''invalid retentionType '' @ apostrophe @ RetentionType im @ apostrophe
                         @ ''; must be '' @ apostrophe @ ''bucket'' @ apostrophe)
          else if RetentionPeriod im \<le>s 0
          then Rejected ''retentionPeriod must be greater than zero''
          else Accepted)"

text \<open>\<^verbatim>\<open>validateCreate\<close> (lines 64-79).\<close>

definition validateCreate :: "Seed \<Rightarrow> outcome" where
  "validateCreate newSeed =
     (case Backup (Spec newSeed) of
        None \<Rightarrow> Panicked
      | Some newBackup \<Rightarrow>
          (case validator_ParseImmutableSettings (ProviderConfig newBackup) of
             Inl err \<Rightarrow> Rejected (''error parsing immutable settings: '' @ err)
           | Inr newImSettings \<Rightarrow>
               if newImSettings \<noteq> None \<and> validateImmutableSettings newImSettings \<noteq> Accepted
               then validateImmutableSettings newImSettings
               else Accepted))"

text \<open>
  \<^verbatim>\<open>validateUpdate\<close> (lines 82-117). After both sides are parsed come three blocks in
  the order of the source; each returns its error or falls through to the next, and the
  function ends with \<^verbatim>\<open>return nil\<close>.
\<close>

definition validateUpdate :: "Seed \<Rightarrow> Seed \<Rightarrow> outcome" where
  "validateUpdate oldSeed newSeed =
     (case Backup (Spec oldSeed) of
        None \<Rightarrow> Panicked
      | Some oldBackup \<Rightarrow>
          (case validator_ParseImmutableSettings (ProviderConfig oldBackup) of
             Inl err \<Rightarrow> Rejected (''error parsing old immutable settings: '' @ err)
           | Inr oldImSettings \<Rightarrow>
               (case Backup (Spec newSeed) of
                  None \<Rightarrow> Panicked
                | Some newBackup \<Rightarrow>
                    (case validator_ParseImmutableSettings (ProviderConfig newBackup) of
                       Inl err \<Rightarrow> Rejected (''error parsing new immutable settings: '' @ err)
                     | Inr newImSettings \<Rightarrow>
                         if newImSettings = None \<and> oldImSettings \<noteq> None
                         then Rejected ''disabling immutable settings is not allowed''
                         else
                           (case (case (newImSettings, oldImSettings) of
                                    (Some new, Some old) \<Rightarrow>
                                      if RetentionPeriod new <s RetentionPeriod old
                                      then Some ''reducing the retention period is not allowed''
                                      else if RetentionType new \<noteq> RetentionType old
                                      then Some ''modifying the retention type is not allowed''
                                      else None
                                  | _ \<Rightarrow> None) of
                              Some err \<Rightarrow> Rejected err
                            | None \<Rightarrow>
                                if oldImSettings = None \<and> newImSettings \<noteq> None
                                   \<and> validateImmutableSettings newImSettings \<noteq> Accepted
                                then validateImmutableSettings newImSettings
                                else Accepted)))))"

subsection \<open>\<^verbatim>\<open>pkg/gcp/client/storage.go\<close>\<close>

text \<open>\<^verbatim>\<open>ParseImmutableSettings\<close> of package \<^verbatim>\<open>client\<close> (storage.go, lines 42-69).\<close>

definition client_ParseImmutableSettings ::
  "RawExtension option \<Rightarrow> string + ImmutableSettings option" where
  "client_ParseImmutableSettings providerConfig =
     (case providerConfig of
        None \<Rightarrow> Inl ''providerConfig is either empty or nil''
      | Some pc \<Rightarrow>
          if Raw pc = Empty then Inl ''providerConfig is either empty or nil''
          else
            (case json_Unmarshal_client (Raw pc) of
               Inl err \<Rightarrow> Inl (''error while parsing immutable settings: '' @ err)
             | Inr config \<Rightarrow>
                 if retentionType config \<noteq> ''bucket''
                 then Inl (''invalid retentionType '' @ apostrophe @ retentionType config
                           @ apostrophe @ ''; must be '' @ apostrophe @ ''bucket'' @ apostrophe)
                 else
                   (case time_ParseDuration (retentionPeriod config) of
                      Inl err \<Rightarrow> Inl (''invalid retentionPeriod format: '' @ err)
                    | Inr duration \<Rightarrow>
                        Inr (Some \<lparr>RetentionType = retentionType config,
                                   RetentionPeriod = duration\<rparr>))))"

subsection \<open>Example payloads\<close>

text \<open>
  The document
  \<^verbatim>\<open>{"immutableSettings":{"retentionType":t,"retentionPeriod":p}}\<close> as the bytes of a
  \<^verbatim>\<open>RawExtension\<close>, and a seed whose backup carries a given provider configuration.
\<close>

definition settingsPayload :: "string \<Rightarrow> string \<Rightarrow> RawExtension" where
  "settingsPayload t p =
     \<lparr>Raw = Document (JObject [(''immutableSettings'',
              JObject [(''retentionType'', JString t), (''retentionPeriod'', JString p)])])\<rparr>"

definition seedWith :: "RawExtension option \<Rightarrow> Seed" where
  "seedWith providerConfig = \<lparr>Spec = \<lparr>Backup = Some \<lparr>ProviderConfig = providerConfig\<rparr>\<rparr>\<rparr>"

section \<open>Properties\<close>

subsection \<open>Example payloads, parsed\<close>

lemma parse_foo_minus96h:
  "validator_ParseImmutableSettings (Some (settingsPayload ''foo'' ''-96h''))
     = Inr (Some \<lparr>RetentionType = ''foo'', RetentionPeriod = - 345600000000000\<rparr>)"
  by code_simp

lemma Backup_seedWith:
  "Backup (Spec (seedWith providerConfig)) = Some \<lparr>ProviderConfig = providerConfig\<rparr>"
  by (simp add: seedWith_def)

lemma parse_absent: "validator_ParseImmutableSettings None = Inr None"
  by (simp add: validator_ParseImmutableSettings_def)

subsection \<open>Disabling\<close>

text \<open>
  C1. Whenever, in an update, the old provider configuration parses to settings and the new
  one parses to no settings, \<^verbatim>\<open>validateUpdate\<close> returns the error
  "disabling immutable settings is not allowed". Nothing is asked of the old settings: their
  retention type is any string and their retention period any duration, also zero or
  negative.
\<close>

theorem disabling_rejected:
  assumes "Backup (Spec oldSeed) = Some oldBackup"
    and "Backup (Spec newSeed) = Some newBackup"
    and "validator_ParseImmutableSettings (ProviderConfig oldBackup) = Inr (Some old)"
    and "validator_ParseImmutableSettings (ProviderConfig newBackup) = Inr None"
  shows "validateUpdate oldSeed newSeed = Rejected ''disabling immutable settings is not allowed''"
  using assms by (simp add: validateUpdate_def)

theorem disabling_rejected_witness:
  "validator_ParseImmutableSettings (Some (settingsPayload ''foo'' ''-96h''))
     = Inr (Some \<lparr>RetentionType = ''foo'', RetentionPeriod = - 345600000000000\<rparr>)
   \<and> validateUpdate (seedWith (Some (settingsPayload ''foo'' ''-96h''))) (seedWith None)
       = Rejected ''disabling immutable settings is not allowed''
   \<and> validateUpdate (seedWith (Some (settingsPayload ''foo'' ''-96h'')))
                    (seedWith (Some \<lparr>Raw = Empty\<rparr>))
       = Rejected ''disabling immutable settings is not allowed''
   \<and> validateUpdate (seedWith (Some (settingsPayload ''foo'' ''-96h'')))
                    (seedWith (Some \<lparr>Raw = Document (JObject [])\<rparr>))
       = Rejected ''disabling immutable settings is not allowed''"
proof -
  have empty: "validator_ParseImmutableSettings (Some \<lparr>Raw = Empty\<rparr>) = Inr None"
    and object: "validator_ParseImmutableSettings (Some \<lparr>Raw = Document (JObject [])\<rparr>) = Inr None"
    by (simp_all add: validator_ParseImmutableSettings_def json_Unmarshal_validator_def)
  note absent = disabling_rejected
      [OF Backup_seedWith Backup_seedWith,
        of "Some (settingsPayload ''foo'' ''-96h'')" _ None,
        simplified, OF parse_foo_minus96h parse_absent]
  note no_bytes = disabling_rejected
      [OF Backup_seedWith Backup_seedWith,
        of "Some (settingsPayload ''foo'' ''-96h'')" _ "Some \<lparr>Raw = Empty\<rparr>",
        simplified, OF parse_foo_minus96h empty]
  note no_member = disabling_rejected
      [OF Backup_seedWith Backup_seedWith,
        of "Some (settingsPayload ''foo'' ''-96h'')" _ "Some \<lparr>Raw = Document (JObject [])\<rparr>",
        simplified, OF parse_foo_minus96h object]
  from absent no_bytes no_member show ?thesis
    by (simp add: parse_foo_minus96h)
qed

subsection \<open>Updates with settings on both sides\<close>

lemma parse_bucket_96h:
  "validator_ParseImmutableSettings (Some (settingsPayload ''bucket'' ''96h''))
     = Inr (Some \<lparr>RetentionType = ''bucket'', RetentionPeriod = 345600000000000\<rparr>)"
  by code_simp

lemma parse_bucket_48h:
  "validator_ParseImmutableSettings (Some (settingsPayload ''bucket'' ''48h''))
     = Inr (Some \<lparr>RetentionType = ''bucket'', RetentionPeriod = 172800000000000\<rparr>)"
  by code_simp

lemma parse_bucket_120h:
  "validator_ParseImmutableSettings (Some (settingsPayload ''bucket'' ''120h''))
     = Inr (Some \<lparr>RetentionType = ''bucket'', RetentionPeriod = 432000000000000\<rparr>)"
  by code_simp

lemma parse_bar_48h:
  "validator_ParseImmutableSettings (Some (settingsPayload ''bar'' ''48h''))
     = Inr (Some \<lparr>RetentionType = ''bar'', RetentionPeriod = 172800000000000\<rparr>)"
  by code_simp

lemma parse_bar_96h:
  "validator_ParseImmutableSettings (Some (settingsPayload ''bar'' ''96h''))
     = Inr (Some \<lparr>RetentionType = ''bar'', RetentionPeriod = 345600000000000\<rparr>)"
  by code_simp

lemma validateUpdate_both_present:
  assumes "Backup (Spec oldSeed) = Some oldBackup"
    and "Backup (Spec newSeed) = Some newBackup"
    and "validator_ParseImmutableSettings (ProviderConfig oldBackup) = Inr (Some old)"
    and "validator_ParseImmutableSettings (ProviderConfig newBackup) = Inr (Some new)"
  shows "validateUpdate oldSeed newSeed =
           (if sint (RetentionPeriod new) < sint (RetentionPeriod old)
            then Rejected ''reducing the retention period is not allowed''
            else if RetentionType new \<noteq> RetentionType old
            then Rejected ''modifying the retention type is not allowed''
            else Accepted)"
  using assms by (simp add: validateUpdate_def word_sless_alt)

text \<open>
  C2. In an update with settings on both sides and the same retention type, a new retention
  period below the old one (as signed 64-bit durations) is rejected with "reducing the
  retention period is not allowed", and a new period that is at least the old one is
  accepted. So acceptance is monotone in the new period: if one new period is accepted,
  every larger one (with the same type) is accepted too.
\<close>

theorem period_reduction_monotone:
  assumes "Backup (Spec oldSeed) = Some oldBackup"
    and "Backup (Spec newSeed) = Some newBackup"
    and "validator_ParseImmutableSettings (ProviderConfig oldBackup) = Inr (Some old)"
    and "validator_ParseImmutableSettings (ProviderConfig newBackup) = Inr (Some new)"
    and "RetentionType new = RetentionType old"
  shows "(sint (RetentionPeriod new) < sint (RetentionPeriod old) \<longrightarrow>
            validateUpdate oldSeed newSeed = Rejected ''reducing the retention period is not allowed'')
       \<and> (sint (RetentionPeriod old) \<le> sint (RetentionPeriod new) \<longrightarrow>
            validateUpdate oldSeed newSeed = Accepted)
       \<and> (\<forall>newSeed' newBackup' new'.
            Backup (Spec newSeed') = Some newBackup'
            \<and> validator_ParseImmutableSettings (ProviderConfig newBackup') = Inr (Some new')
            \<and> RetentionType new' = RetentionType old
            \<and> sint (RetentionPeriod new) \<le> sint (RetentionPeriod new')
            \<and> validateUpdate oldSeed newSeed = Accepted
            \<longrightarrow> validateUpdate oldSeed newSeed' = Accepted)"
proof -
  have here: "validateUpdate oldSeed newSeed =
                (if sint (RetentionPeriod new) < sint (RetentionPeriod old)
                 then Rejected ''reducing the retention period is not allowed'' else Accepted)"
    using assms by (simp add: validateUpdate_both_present)
  have there: "validateUpdate oldSeed newSeed' = Accepted"
    if "Backup (Spec newSeed') = Some newBackup'"
      and "validator_ParseImmutableSettings (ProviderConfig newBackup') = Inr (Some new')"
      and "RetentionType new' = RetentionType old"
      and "sint (RetentionPeriod new) \<le> sint (RetentionPeriod new')"
      and "validateUpdate oldSeed newSeed = Accepted"
    for newSeed' newBackup' new'
  proof -
    from that(5) here have "\<not> sint (RetentionPeriod new) < sint (RetentionPeriod old)"
      by (auto split: if_splits)
    with that(4) have "\<not> sint (RetentionPeriod new') < sint (RetentionPeriod old)"
      by simp
    with assms(1,3) that(1-3) show ?thesis
      by (simp add: validateUpdate_both_present)
  qed
  from here there show ?thesis
    by auto
qed

theorem period_reduction_monotone_witness:
  "validateUpdate (seedWith (Some (settingsPayload ''bucket'' ''96h'')))
                  (seedWith (Some (settingsPayload ''bucket'' ''48h'')))
     = Rejected ''reducing the retention period is not allowed''
   \<and> validateUpdate (seedWith (Some (settingsPayload ''bucket'' ''96h'')))
                    (seedWith (Some (settingsPayload ''bucket'' ''96h''))) = Accepted
   \<and> validateUpdate (seedWith (Some (settingsPayload ''bucket'' ''96h'')))
                    (seedWith (Some (settingsPayload ''bucket'' ''120h''))) = Accepted"
proof -
  note reduce = period_reduction_monotone
      [OF Backup_seedWith Backup_seedWith,
        of "Some (settingsPayload ''bucket'' ''96h'')" _ "Some (settingsPayload ''bucket'' ''48h'')",
        simplified, OF parse_bucket_96h parse_bucket_48h]
  note keep = period_reduction_monotone
      [OF Backup_seedWith Backup_seedWith,
        of "Some (settingsPayload ''bucket'' ''96h'')" _ "Some (settingsPayload ''bucket'' ''96h'')",
        simplified, OF parse_bucket_96h parse_bucket_96h]
  have r: "validateUpdate (seedWith (Some (settingsPayload ''bucket'' ''96h'')))
                          (seedWith (Some (settingsPayload ''bucket'' ''48h'')))
             = Rejected ''reducing the retention period is not allowed''"
    using reduce by simp
  have k: "validateUpdate (seedWith (Some (settingsPayload ''bucket'' ''96h'')))
                          (seedWith (Some (settingsPayload ''bucket'' ''96h''))) = Accepted"
    using keep by simp
  have "validateUpdate (seedWith (Some (settingsPayload ''bucket'' ''96h'')))
                       (seedWith (Some (settingsPayload ''bucket'' ''120h''))) = Accepted"
    using keep k Backup_seedWith [of "Some (settingsPayload ''bucket'' ''120h'')"] parse_bucket_120h
    by auto
  with r k show ?thesis by simp
qed

text \<open>
  C3. In an update with settings on both sides where the new retention period is below the
  old one and the retention type differs as well, the error is "reducing the retention
  period is not allowed". The error "modifying the retention type is not allowed" is
  returned exactly when the period is not reduced and the type differs.
\<close>

theorem reduction_reported_before_type_change:
  assumes "Backup (Spec oldSeed) = Some oldBackup"
    and "Backup (Spec newSeed) = Some newBackup"
    and "validator_ParseImmutableSettings (ProviderConfig oldBackup) = Inr (Some old)"
    and "validator_ParseImmutableSettings (ProviderConfig newBackup) = Inr (Some new)"
  shows "(sint (RetentionPeriod new) < sint (RetentionPeriod old)
            \<and> RetentionType new \<noteq> RetentionType old \<longrightarrow>
          validateUpdate oldSeed newSeed = Rejected ''reducing the retention period is not allowed'')
       \<and> (validateUpdate oldSeed newSeed = Rejected ''modifying the retention type is not allowed''
            \<longleftrightarrow> \<not> sint (RetentionPeriod new) < sint (RetentionPeriod old)
                 \<and> RetentionType new \<noteq> RetentionType old)"
  using assms by (simp add: validateUpdate_both_present)

theorem reduction_reported_before_type_change_witness:
  "validateUpdate (seedWith (Some (settingsPayload ''bucket'' ''96h'')))
                  (seedWith (Some (settingsPayload ''bar'' ''48h'')))
     = Rejected ''reducing the retention period is not allowed''
   \<and> validateUpdate (seedWith (Some (settingsPayload ''bucket'' ''96h'')))
                    (seedWith (Some (settingsPayload ''bar'' ''96h'')))
     = Rejected ''modifying the retention type is not allowed''"
proof -
  note both = reduction_reported_before_type_change
      [OF Backup_seedWith Backup_seedWith,
        of "Some (settingsPayload ''bucket'' ''96h'')" _ "Some (settingsPayload ''bar'' ''48h'')",
        simplified, OF parse_bucket_96h parse_bar_48h]
  note only_type = reduction_reported_before_type_change
      [OF Backup_seedWith Backup_seedWith,
        of "Some (settingsPayload ''bucket'' ''96h'')" _ "Some (settingsPayload ''bar'' ''96h'')",
        simplified, OF parse_bucket_96h parse_bar_96h]
  from both only_type show ?thesis
    by simp
qed

text \<open>
  C4. An update whose old and new provider configurations parse to the same settings \<open>S\<close> is
  accepted, whatever \<open>S\<close> is: its retention type need not be "bucket" and its retention
  period need not be positive. More generally, an update with settings on both sides, the
  same retention type and a retention period that is not reduced is accepted; the shape of
  the settings is not looked at.
\<close>

theorem unchanged_settings_accepted:
  assumes "Backup (Spec oldSeed) = Some oldBackup"
    and "Backup (Spec newSeed) = Some newBackup"
    and "validator_ParseImmutableSettings (ProviderConfig oldBackup) = Inr (Some old)"
    and "validator_ParseImmutableSettings (ProviderConfig newBackup) = Inr (Some new)"
  shows "(new = old \<longrightarrow> validateUpdate oldSeed newSeed = Accepted)
       \<and> (RetentionType new = RetentionType old
            \<and> \<not> sint (RetentionPeriod new) < sint (RetentionPeriod old) \<longrightarrow>
          validateUpdate oldSeed newSeed = Accepted)"
  using assms by (simp add: validateUpdate_both_present)

theorem unchanged_settings_accepted_witness:
  "validateImmutableSettings (Some \<lparr>RetentionType = ''foo'', RetentionPeriod = - 345600000000000\<rparr>)
     = Rejected (''invalid retentionType 'foo'; must be 'bucket'' @ apostrophe)
   \<and> validateUpdate (seedWith (Some (settingsPayload ''foo'' ''-96h'')))
                    (seedWith (Some (settingsPayload ''foo'' ''-96h''))) = Accepted"
proof -
  note same = unchanged_settings_accepted
      [OF Backup_seedWith Backup_seedWith,
        of "Some (settingsPayload ''foo'' ''-96h'')" _ "Some (settingsPayload ''foo'' ''-96h'')",
        simplified, OF parse_foo_minus96h parse_foo_minus96h]
  have "validateImmutableSettings
          (Some \<lparr>RetentionType = ''foo'', RetentionPeriod = - 345600000000000\<rparr>)
        = Rejected (''invalid retentionType 'foo'; must be 'bucket'' @ apostrophe)"
    by (simp add: validateImmutableSettings_def apostrophe_def)
  with same show ?thesis
    by simp
qed

subsection \<open>Shape validation\<close>

lemma validateCreate_present:
  assumes "Backup (Spec newSeed) = Some newBackup"
    and "validator_ParseImmutableSettings (ProviderConfig newBackup) = Inr (Some im)"
  shows "validateCreate newSeed = validateImmutableSettings (Some im)"
  using assms by (simp add: validateCreate_def)

lemma validateUpdate_newly_added:
  assumes "Backup (Spec oldSeed) = Some oldBackup"
    and "Backup (Spec newSeed) = Some newBackup"
    and "validator_ParseImmutableSettings (ProviderConfig oldBackup) = Inr None"
    and "validator_ParseImmutableSettings (ProviderConfig newBackup) = Inr (Some im)"
  shows "validateUpdate oldSeed newSeed = validateImmutableSettings (Some im)"
  using assms by (simp add: validateUpdate_def)

text \<open>
  C7. Shape validation looks at the retention type first: a type other than "bucket" (the
  empty string included) is rejected with \<^verbatim>\<open>invalid retentionType '<type>'; must be 'bucket'\<close>,
  whatever the period. With the type "bucket", a retention period that is zero or negative is
  rejected with "retentionPeriod must be greater than zero", and a positive one is accepted.
  This is the result of \<^verbatim>\<open>validateCreate\<close> when the new configuration parses to
  settings, and of \<^verbatim>\<open>validateUpdate\<close> when the old configuration parses to none and the
  new one to settings.
\<close>

theorem shape_validation:
  "(RetentionType im \<noteq> ''bucket'' \<longrightarrow>
      validateImmutableSettings (Some im)
        = Rejected (''invalid retentionType '' @ [CHR 0x27] @ RetentionType im @ [CHR 0x27]
                    @ ''; must be '' @ [CHR 0x27] @ ''bucket'' @ [CHR 0x27]))
   \<and> (RetentionType im = ''bucket'' \<and> sint (RetentionPeriod im) \<le> 0 \<longrightarrow>
      validateImmutableSettings (Some im) = Rejected ''retentionPeriod must be greater than zero'')
   \<and> (RetentionType im = ''bucket'' \<and> 0 < sint (RetentionPeriod im) \<longrightarrow>
      validateImmutableSettings (Some im) = Accepted)
   \<and> (\<forall>newSeed newBackup.
        Backup (Spec newSeed) = Some newBackup
        \<and> validator_ParseImmutableSettings (ProviderConfig newBackup) = Inr (Some im) \<longrightarrow>
        validateCreate newSeed = validateImmutableSettings (Some im))
   \<and> (\<forall>oldSeed newSeed oldBackup newBackup.
        Backup (Spec oldSeed) = Some oldBackup
        \<and> Backup (Spec newSeed) = Some newBackup
        \<and> validator_ParseImmutableSettings (ProviderConfig oldBackup) = Inr None
        \<and> validator_ParseImmutableSettings (ProviderConfig newBackup) = Inr (Some im) \<longrightarrow>
        validateUpdate oldSeed newSeed = validateImmutableSettings (Some im))"
proof -
  have "validateImmutableSettings (Some im) =
          (if RetentionType im \<noteq> ''bucket''
           then Rejected (''invalid retentionType '' @ [CHR 0x27] @ RetentionType im @ [CHR 0x27]
                          @ ''; must be '' @ [CHR 0x27] @ ''bucket'' @ [CHR 0x27])
           else if sint (RetentionPeriod im) \<le> 0
           then Rejected ''retentionPeriod must be greater than zero''
           else Accepted)"
    by (simp add: validateImmutableSettings_def apostrophe_def word_sle_eq)
  then show ?thesis
    by (auto simp: validateCreate_present validateUpdate_newly_added)
qed

lemma parse_invalid_minus96h:
  "validator_ParseImmutableSettings (Some (settingsPayload ''invalid'' ''-96h''))
     = Inr (Some \<lparr>RetentionType = ''invalid'', RetentionPeriod = - 345600000000000\<rparr>)"
  by code_simp

lemma parse_bucket_minus96h:
  "validator_ParseImmutableSettings (Some (settingsPayload ''bucket'' ''-96h''))
     = Inr (Some \<lparr>RetentionType = ''bucket'', RetentionPeriod = - 345600000000000\<rparr>)"
  by code_simp

lemma parse_empty_type_0s:
  "validator_ParseImmutableSettings (Some (settingsPayload [] ''0s''))
     = Inr (Some \<lparr>RetentionType = [], RetentionPeriod = 0\<rparr>)"
  by code_simp

theorem shape_validation_witness:
  "validateCreate (seedWith (Some (settingsPayload ''invalid'' ''-96h'')))
     = Rejected (''invalid retentionType 'invalid'; must be 'bucket'' @ [CHR 0x27])
   \<and> validateCreate (seedWith (Some (settingsPayload ''bucket'' ''-96h'')))
     = Rejected ''retentionPeriod must be greater than zero''
   \<and> validateCreate (seedWith (Some (settingsPayload ''bucket'' ''96h''))) = Accepted
   \<and> validateUpdate (seedWith None) (seedWith (Some (settingsPayload [] ''0s'')))
     = Rejected (''invalid retentionType '' @ [CHR 0x27, CHR 0x27] @ ''; must be 'bucket'' @ [CHR 0x27])"
proof -
  have a: "validateCreate (seedWith (Some (settingsPayload ''invalid'' ''-96h'')))
             = Rejected (''invalid retentionType 'invalid'; must be 'bucket'' @ [CHR 0x27])"
    using shape_validation [of "\<lparr>RetentionType = ''invalid'', RetentionPeriod = - 345600000000000\<rparr>"]
      Backup_seedWith [of "Some (settingsPayload ''invalid'' ''-96h'')"] parse_invalid_minus96h
    by auto
  have b: "validateCreate (seedWith (Some (settingsPayload ''bucket'' ''-96h'')))
             = Rejected ''retentionPeriod must be greater than zero''"
    using shape_validation [of "\<lparr>RetentionType = ''bucket'', RetentionPeriod = - 345600000000000\<rparr>"]
      Backup_seedWith [of "Some (settingsPayload ''bucket'' ''-96h'')"] parse_bucket_minus96h
    by auto
  have c: "validateCreate (seedWith (Some (settingsPayload ''bucket'' ''96h''))) = Accepted"
    using shape_validation [of "\<lparr>RetentionType = ''bucket'', RetentionPeriod = 345600000000000\<rparr>"]
      Backup_seedWith [of "Some (settingsPayload ''bucket'' ''96h'')"] parse_bucket_96h
    by auto
  have d: "validateUpdate (seedWith None) (seedWith (Some (settingsPayload [] ''0s'')))
     = Rejected (''invalid retentionType '' @ [CHR 0x27, CHR 0x27] @ ''; must be 'bucket'' @ [CHR 0x27])"
    using shape_validation [of "\<lparr>RetentionType = [], RetentionPeriod = 0\<rparr>"]
      Backup_seedWith [of "Some (settingsPayload [] ''0s'')"] Backup_seedWith [of None]
      parse_empty_type_0s parse_absent
    by auto
  from a b c d show ?thesis by simp
qed

subsection \<open>Parsing for admission\<close>

lemma fieldMatch_period_type: "fieldMatch ''retentionPeriod'' ''retentionType'' = False"
  by code_simp

lemma fieldMatch_type_period: "fieldMatch ''retentionType'' ''retentionPeriod'' = False"
  by code_simp


lemma json_Unmarshal_validator_settingsPayload:
  "json_Unmarshal_validator (Raw (settingsPayload t p))
     = Inr (Some \<lparr>retentionType = t, retentionPeriod = p\<rparr>)"
  by (simp add: json_Unmarshal_validator_def settingsPayload_def decodeSettingsPtr_def
      decodeSettings_def storeString_def zeroImmutableSettingsJSON_def fieldMatch_def
      fieldMatch_period_type fieldMatch_type_period)

lemma json_Unmarshal_client_settingsPayload:
  "json_Unmarshal_client (Raw (settingsPayload t p))
     = Inr \<lparr>retentionType = t, retentionPeriod = p\<rparr>"
  by (simp add: json_Unmarshal_client_def settingsPayload_def
      decodeSettings_def storeString_def zeroImmutableSettingsJSON_def fieldMatch_def
      fieldMatch_period_type fieldMatch_type_period)

lemma Raw_settingsPayload: "Raw (settingsPayload t p) \<noteq> Empty"
  by (simp add: settingsPayload_def)




text \<open>
  C6. When \<^verbatim>\<open>json.Unmarshal\<close> leaves \<^verbatim>\<open>config.ImmutableSettings\<close> pointing to a
  struct (the member \<^verbatim>\<open>immutableSettings\<close> is present) and the string in its
  \<^verbatim>\<open>retentionPeriod\<close> parses as a duration \<open>d\<close>, the validator's
  \<^verbatim>\<open>ParseImmutableSettings\<close> returns settings with the retention type as decoded,
  whatever string it is, and the retention period \<open>d\<close>, whatever its sign. When the string
  does not parse, with complaint \<open>e\<close>, the error is "invalid retentionPeriod format: "
  followed by \<open>e\<close>. For the document
  \<^verbatim>\<open>{"immutableSettings":{"retentionType":t,"retentionPeriod":p}}\<close> the retention type
  returned is \<open>t\<close> and the duration parsed is that of \<open>p\<close>.
\<close>

theorem parse_copies_type_and_duration:
  assumes "Raw pc \<noteq> Empty"
    and "json_Unmarshal_validator (Raw pc) = Inr (Some js)"
  shows "(\<forall>d. time_ParseDuration (retentionPeriod js) = Inr d \<longrightarrow>
            validator_ParseImmutableSettings (Some pc)
              = Inr (Some \<lparr>RetentionType = retentionType js, RetentionPeriod = d\<rparr>))
       \<and> (\<forall>e. time_ParseDuration (retentionPeriod js) = Inl e \<longrightarrow>
            validator_ParseImmutableSettings (Some pc)
              = Inl (''invalid retentionPeriod format: '' @ e))
       \<and> (\<forall>t p d. time_ParseDuration p = Inr d \<longrightarrow>
            validator_ParseImmutableSettings (Some (settingsPayload t p))
              = Inr (Some \<lparr>RetentionType = t, RetentionPeriod = d\<rparr>))
       \<and> (\<forall>t p e. time_ParseDuration p = Inl e \<longrightarrow>
            validator_ParseImmutableSettings (Some (settingsPayload t p))
              = Inl (''invalid retentionPeriod format: '' @ e))"
  using assms
  by (simp add: validator_ParseImmutableSettings_def json_Unmarshal_validator_settingsPayload
      Raw_settingsPayload)

lemma ParseDuration_0s: "time_ParseDuration ''0s'' = Inr 0"
  by code_simp

lemma ParseDuration_minus96h: "time_ParseDuration ''-96h'' = Inr (- 345600000000000)"
  by code_simp

lemma ParseDuration_invalid:
  "time_ParseDuration ''invalid'' = Inl (''time: invalid duration '' @ [CHR 0x22] @ ''invalid'' @ [CHR 0x22])"
  by code_simp


theorem parse_copies_type_and_duration_witness:
  "validator_ParseImmutableSettings (Some (settingsPayload [] ''0s''))
     = Inr (Some \<lparr>RetentionType = [], RetentionPeriod = 0\<rparr>)
   \<and> validator_ParseImmutableSettings (Some (settingsPayload ''tape'' ''-96h''))
     = Inr (Some \<lparr>RetentionType = ''tape'', RetentionPeriod = - 345600000000000\<rparr>)
   \<and> sint (- 345600000000000 :: Duration) = - 345600000000000
   \<and> validator_ParseImmutableSettings (Some (settingsPayload ''bucket'' ''invalid''))
     = Inl (''invalid retentionPeriod format: time: invalid duration ''
            @ [CHR 0x22] @ ''invalid'' @ [CHR 0x22])"
proof -
  note zero = parse_copies_type_and_duration
      [OF Raw_settingsPayload json_Unmarshal_validator_settingsPayload, of "[]" "''0s''"]
  note negative = parse_copies_type_and_duration
      [OF Raw_settingsPayload json_Unmarshal_validator_settingsPayload, of "''tape''" "''-96h''"]
  note invalid = parse_copies_type_and_duration
      [OF Raw_settingsPayload json_Unmarshal_validator_settingsPayload, of "''bucket''" "''invalid''"]
  from zero negative invalid show ?thesis
    by (simp add: ParseDuration_0s ParseDuration_minus96h ParseDuration_invalid)
qed

subsection \<open>Parsing for the storage client\<close>

text \<open>
  C8. \<^verbatim>\<open>ParseImmutableSettings\<close> of the storage client returns the error
  "providerConfig is either empty or nil" for a nil provider configuration and for one
  without bytes, where the validator's parser returns no settings and no error. The storage
  client's parser never returns no settings without an error.
\<close>

theorem client_parse_needs_payload:
  "client_ParseImmutableSettings None = Inl ''providerConfig is either empty or nil''
   \<and> (Raw pc = Empty \<longrightarrow>
        client_ParseImmutableSettings (Some pc) = Inl ''providerConfig is either empty or nil'')
   \<and> client_ParseImmutableSettings providerConfig \<noteq> Inr None
   \<and> validator_ParseImmutableSettings None = Inr None
   \<and> (Raw pc = Empty \<longrightarrow> validator_ParseImmutableSettings (Some pc) = Inr None)"
  by (auto simp: client_ParseImmutableSettings_def validator_ParseImmutableSettings_def
      split: option.splits sum.splits)

theorem client_parse_needs_payload_witness:
  "Raw \<lparr>Raw = Empty\<rparr> = Empty
   \<and> client_ParseImmutableSettings (Some \<lparr>Raw = Empty\<rparr>)
       = Inl ''providerConfig is either empty or nil''
   \<and> validator_ParseImmutableSettings (Some \<lparr>Raw = Empty\<rparr>) = Inr None"
  using client_parse_needs_payload [of "\<lparr>Raw = Empty\<rparr>"]
  by simp

text \<open>
  C10. The storage client's \<^verbatim>\<open>ParseImmutableSettings\<close> checks the retention type itself:
  when the decoded type is not "bucket" it returns
  \<^verbatim>\<open>invalid retentionType '<type>'; must be 'bucket'\<close>. With the type "bucket" and a
  retention period string that parses as a duration \<open>d\<close>, it returns settings with the
  period \<open>d\<close>, also when \<open>d\<close> is zero or negative: the sign of the duration is not checked.
\<close>

theorem client_parse_checks_type_only:
  assumes "Raw pc \<noteq> Empty"
    and "json_Unmarshal_client (Raw pc) = Inr config"
  shows "(retentionType config \<noteq> ''bucket'' \<longrightarrow>
            client_ParseImmutableSettings (Some pc)
              = Inl (''invalid retentionType '' @ [CHR 0x27] @ retentionType config @ [CHR 0x27]
                     @ ''; must be '' @ [CHR 0x27] @ ''bucket'' @ [CHR 0x27]))
       \<and> (\<forall>d. retentionType config = ''bucket''
                \<and> time_ParseDuration (retentionPeriod config) = Inr d \<longrightarrow>
            client_ParseImmutableSettings (Some pc)
              = Inr (Some \<lparr>RetentionType = ''bucket'', RetentionPeriod = d\<rparr>))
       \<and> (\<forall>p d. time_ParseDuration p = Inr d \<and> sint d \<le> 0 \<longrightarrow>
            client_ParseImmutableSettings (Some (settingsPayload ''bucket'' p))
              = Inr (Some \<lparr>RetentionType = ''bucket'', RetentionPeriod = d\<rparr>))"
  using assms
  by (simp add: client_ParseImmutableSettings_def apostrophe_def
      json_Unmarshal_client_settingsPayload Raw_settingsPayload)

theorem client_parse_checks_type_only_witness:
  "client_ParseImmutableSettings (Some (settingsPayload ''bucket'' ''-96h''))
     = Inr (Some \<lparr>RetentionType = ''bucket'', RetentionPeriod = - 345600000000000\<rparr>)
   \<and> client_ParseImmutableSettings (Some (settingsPayload ''bucket'' ''0s''))
     = Inr (Some \<lparr>RetentionType = ''bucket'', RetentionPeriod = 0\<rparr>)
   \<and> client_ParseImmutableSettings (Some (settingsPayload ''bar'' ''96h''))
     = Inl (''invalid retentionType 'bar'; must be 'bucket'' @ [CHR 0x27])
   \<and> validateImmutableSettings (Some \<lparr>RetentionType = ''bucket'', RetentionPeriod = - 345600000000000\<rparr>)
     = Rejected ''retentionPeriod must be greater than zero''"
proof -
  note negative = client_parse_checks_type_only
      [OF Raw_settingsPayload json_Unmarshal_client_settingsPayload, of "''bucket''" "''-96h''"]
  note zero = client_parse_checks_type_only
      [OF Raw_settingsPayload json_Unmarshal_client_settingsPayload, of "''bucket''" "''0s''"]
  note other = client_parse_checks_type_only
      [OF Raw_settingsPayload json_Unmarshal_client_settingsPayload, of "''bar''" "''96h''"]
  have "validateImmutableSettings
          (Some \<lparr>RetentionType = ''bucket'', RetentionPeriod = - 345600000000000\<rparr>)
        = Rejected ''retentionPeriod must be greater than zero''"
    by (simp add: validateImmutableSettings_def word_sle_eq)
  with negative zero other show ?thesis
    by (simp add: ParseDuration_0s ParseDuration_minus96h)
qed

subsection \<open>A missing retention period\<close>






end
